theory Spec2Isabelle
  imports Complex_Main "HOL-Library.Product_Lexorder"
begin

section \<open>Python values used by the guidance engine\<close>

text \<open>
  The engine of \<^verbatim>\<open>backend/main.py\<close> computes on Python floats, strings, lists and
  dictionaries. Floats are modelled as \<^typ>\<open>real\<close> (exact arithmetic: rounding error of
  IEEE doubles, infinities and NaN are outside the model), strings as \<^typ>\<open>string\<close>
  (bytes; the em dash of the phrase table is its UTF-8 encoding), dictionaries with a
  fixed set of keys as records whose optional keys are \<^typ>\<open>'a option\<close> fields, and every
  exception the engine can raise as a value of \<open>error\<close>.
\<close>

datatype error = ZeroDivisionError | ValueError | KeyError | IndexError

text \<open>Float division \<^verbatim>\<open>a / b\<close>: Python raises on a zero divisor.\<close>

definition py_div :: "real \<Rightarrow> real \<Rightarrow> error + real" where
  "py_div a b = (if b = 0 then Inl ZeroDivisionError else Inr (a / b))"

text \<open>\<^verbatim>\<open>round(x)\<close>: to the nearest integer, a tie to the even one.\<close>

definition py_round :: "real \<Rightarrow> int" where
  "py_round v =
     (let f = \<lfloor>v\<rfloor>; d = v - of_int f
      in if d < 1 / 2 then f else if 1 / 2 < d then f + 1 else if even f then f else f + 1)"

text \<open>\<^verbatim>\<open>round(x, 1)\<close>: to the nearest tenth.\<close>

definition py_round1 :: "real \<Rightarrow> real" where
  "py_round1 v = of_int (py_round (v * 10)) / 10"

section \<open>Data model\<close>

text \<open>
  \<^verbatim>\<open>class ObjectDetection(BaseModel)\<close>: \<^verbatim>\<open>name\<close>, \<^verbatim>\<open>confidence\<close>, the optional
  \<^verbatim>\<open>bbox\<close> list \<^verbatim>\<open>[x1,y1,x2,y2]\<close> (a list of any length passes validation) and the
  optional \<^verbatim>\<open>x, y, w, h\<close> of the other input format. Equality of two detections
  (\<^verbatim>\<open>o in target_objs\<close>) compares all fields, as equality of records does.
\<close>

record ObjectDetection =
  name :: string
  confidence :: real
  bbox :: "real list option"
  od_x :: "real option"
  od_y :: "real option"
  od_w :: "real option"
  od_h :: "real option"

text \<open>
  The guard \<^verbatim>\<open>if not obj.bbox or len(obj.bbox) != 4\<close> followed by
  \<^verbatim>\<open>x1, y1, x2, y2 = obj.bbox\<close>: \<open>None\<close> when the guard fires.
\<close>

fun unpack4 :: "real list \<Rightarrow> (real \<times> real \<times> real \<times> real) option" where
  "unpack4 [x1, y1, x2, y2] = Some (x1, y1, x2, y2)"
| "unpack4 _ = None"

definition bbox4 :: "ObjectDetection \<Rightarrow> (real \<times> real \<times> real \<times> real) option" where
  "bbox4 obj = (case bbox obj of None \<Rightarrow> None | Some b \<Rightarrow> unpack4 b)"

section \<open>Distance classifier\<close>

text \<open>\<^verbatim>\<open>_estimate_distance(obj, img_height)\<close>, main.py lines 404-427.\<close>

definition estimate_distance :: "ObjectDetection \<Rightarrow> real \<Rightarrow> error + string" where
  "estimate_distance obj img_height =
     (case bbox4 obj of
        None \<Rightarrow> Inr ''unknown''
      | Some (x1, y1, x2, y2) \<Rightarrow>
          (let height = y2 - y1; bottom_y = y2 in
           case py_div height img_height of
             Inl e \<Rightarrow> Inl e
           | Inr rel_height \<Rightarrow>
               (case py_div bottom_y img_height of
                  Inl e \<Rightarrow> Inl e
                | Inr rel_bottom \<Rightarrow>
                    Inr (if rel_height > 0.4 \<and> rel_bottom > 0.7 then ''very close''
                         else if rel_height > 0.25 \<and> rel_bottom > 0.6 then ''close''
                         else if rel_height > 0.15 \<and> rel_bottom > 0.5 then ''medium''
                         else if rel_height > 0.08 then ''far''
                         else ''very far''))))"

text \<open>
  The thresholds of the distance classifier as the specification words them, on the pair
  \<open>(rel_height, rel_bottom)\<close>, for comparison with the code.
\<close>

definition spec_distance_label :: "real \<Rightarrow> real \<Rightarrow> string" where
  "spec_distance_label rel_height rel_bottom =
     (if rel_height > 0.4 \<and> rel_bottom > 0.7 then ''very close''
      else if rel_height > 0.25 \<and> rel_bottom > 0.6 then ''close''
      else if rel_height > 0.15 \<and> rel_bottom > 0.5 then ''medium''
      else if rel_height > 0.08 then ''far''
      else ''very far'')"

definition distance_labels :: "string list" where
  "distance_labels = [''very close'', ''close'', ''medium'', ''far'', ''very far'', ''unknown'']"

text \<open>A detection with a box, and nothing in the alternative input format.\<close>

definition detection :: "string \<Rightarrow> real \<Rightarrow> real list \<Rightarrow> ObjectDetection" where
  "detection n c b =
     \<lparr>name = n, confidence = c, bbox = Some b,
      od_x = None, od_y = None, od_w = None, od_h = None\<rparr>"


section \<open>Strings\<close>

text \<open>
  \<^verbatim>\<open>str.lower()\<close> on the ASCII letters (labels and queries outside ASCII are outside
  the model).
\<close>

definition lower_char :: "char \<Rightarrow> char" where
  "lower_char c =
     (case map_of (zip ''ABCDEFGHIJKLMNOPQRSTUVWXYZ'' ''abcdefghijklmnopqrstuvwxyz'') c of
        Some l \<Rightarrow> l
      | None \<Rightarrow> c)"

definition py_lower :: "string \<Rightarrow> string" where
  "py_lower s = map lower_char s"

text \<open>Decimal digits of a natural number, and the format \<^verbatim>\<open>{v:.1f}\<close>.\<close>

fun show_nat :: "nat \<Rightarrow> string" where
  "show_nat n =
     (if n < 10 then [''0123456789'' ! n]
      else show_nat (n div 10) @ [''0123456789'' ! (n mod 10)])"

declare show_nat.simps [simp del]

definition fmt_1f :: "real \<Rightarrow> string" where
  "fmt_1f v =
     (let k = py_round (v * 10); a = nat \<bar>k\<bar>
      in (if k < 0 then ''-'' else []) @ show_nat (a div 10) @ ''.'' @ show_nat (a mod 10))"

section \<open>Geometry utilities: precise position\<close>

text \<open>
  The dictionary returned by \<^verbatim>\<open>_calculate_precise_position\<close>. The fallback dictionary
  for a missing box has no \<^verbatim>\<open>size_pixels\<close> and no \<^verbatim>\<open>confidence\<close> key.
\<close>

record position_data =
  pos_angle :: real
  pos_distance_meters :: real
  pos_position :: string
  pos_coordinates :: "int \<times> int"
  pos_size_pixels :: "(int \<times> int) option"
  pos_confidence :: "real option"

definition object_real_sizes :: "(string \<times> real) list" where
  "object_real_sizes =
     [(''person'', 1.7), (''car'', 4.5), (''chair'', 0.9), (''table'', 0.75),
      (''door'', 2), (''laptop'', 0.35), (''cell phone'', 0.15), (''bottle'', 0.25),
      (''cup'', 0.1), (''book'', 0.25), (''clock'', 0.3), (''tv'', 1),
      (''refrigerator'', 1.8), (''microwave'', 0.5), (''oven'', 0.6), (''sink'', 0.6),
      (''toilet'', 0.7), (''bed'', 2), (''dining table'', 1.5), (''sofa'', 2),
      (''potted plant'', 0.5), (''bicycle'', 1.7), (''motorcycle'', 2),
      (''airplane'', 50), (''bus'', 12), (''train'', 25), (''truck'', 8),
      (''boat'', 6), (''stop sign'', 0.8), (''parking meter'', 1.2), (''bench'', 1.5),
      (''bird'', 0.15), (''cat'', 0.4), (''dog'', 0.6), (''horse'', 2.5), (''sheep'', 1.5),
      (''cow'', 2.5), (''elephant'', 6), (''bear'', 2), (''zebra'', 2.5),
      (''giraffe'', 5)]"

definition real_size_of :: "string \<Rightarrow> real" where
  "real_size_of n = (case map_of object_real_sizes (py_lower n) of Some v \<Rightarrow> v | None \<Rightarrow> 1)"

definition side_of :: "real \<Rightarrow> string" where
  "side_of a = (if a < 0 then ''left'' else ''right'')"

definition position_label :: "real \<Rightarrow> string" where
  "position_label angle_offset =
     (if \<bar>angle_offset\<bar> < 5 then ''directly ahead''
      else if \<bar>angle_offset\<bar> < 15 then ''slightly '' @ side_of angle_offset
      else if \<bar>angle_offset\<bar> < 30 then side_of angle_offset
      else if \<bar>angle_offset\<bar> < 45 then ''far '' @ side_of angle_offset
      else ''extreme '' @ side_of angle_offset)"

text \<open>\<^verbatim>\<open>_calculate_precise_position(obj, img_width, img_height)\<close>, main.py lines 430-526.\<close>

definition calculate_precise_position ::
    "ObjectDetection \<Rightarrow> real \<Rightarrow> real \<Rightarrow> error + position_data" where
  "calculate_precise_position obj img_width img_height =
     (case bbox4 obj of
        None \<Rightarrow>
          Inr \<lparr>pos_angle = 0, pos_distance_meters = 0, pos_position = ''unknown'',
               pos_coordinates = (0, 0), pos_size_pixels = None, pos_confidence = None\<rparr>
      | Some (x1, y1, x2, y2) \<Rightarrow>
          (let center_x = (x1 + x2) / 2;
               center_y = (y1 + y2) / 2;
               width = x2 - x1;
               height = y2 - y1;
               frame_center_x = img_width / 2;
               horizontal_fov = 60;
               pixels_per_degree = img_width / horizontal_fov
           in case py_div (center_x - frame_center_x) pixels_per_degree of
                Inl e \<Rightarrow> Inl e
              | Inr angle_offset \<Rightarrow>
                  (let real_size = real_size_of (name obj);
                       focal_length_approx = img_height
                   in case py_div (real_size * focal_length_approx) height of
                        Inl e \<Rightarrow> Inl e
                      | Inr estimated_distance \<Rightarrow>
                          Inr \<lparr>pos_angle = py_round1 angle_offset,
                               pos_distance_meters =
                                 py_round1 (max 0.5 (min estimated_distance 100)),
                               pos_position = position_label angle_offset,
                               pos_coordinates = (py_round center_x, py_round center_y),
                               pos_size_pixels = Some (py_round width, py_round height),
                               pos_confidence = Some (confidence obj)\<rparr>)))"


section \<open>Direction resolver\<close>

text \<open>
  The \<^verbatim>\<open>navigation\<close> dictionary and the dictionary returned by
  \<^verbatim>\<open>_direction_for_targets\<close> and \<^verbatim>\<open>_free_path_direction\<close>. The keys
  \<^verbatim>\<open>target_count\<close> and \<^verbatim>\<open>navigation\<close> are not always present; an empty
  \<^verbatim>\<open>navigation\<close> dictionary and an absent one are both \<open>None\<close> (the engine only tests
  it for truth).
\<close>

record navigation =
  nav_angle_degrees :: real
  nav_distance_meters :: real
  nav_turn_instruction :: string
  nav_approach_instruction :: string
  nav_full_instruction :: string
  nav_position_description :: string
  nav_coordinates :: "int \<times> int"

record direction_info =
  di_direction :: string
  di_distance :: string
  di_confidence :: real
  di_target_count :: "nat option"
  di_navigation :: "navigation option"

definition unknown_direction :: direction_info where
  "unknown_direction =
     \<lparr>di_direction = ''unknown'', di_distance = ''unknown'', di_confidence = 0,
      di_target_count = None, di_navigation = None\<rparr>"

text \<open>The loop \<^verbatim>\<open>for obj in target_objs: positions.append(...)\<close>.\<close>

fun calc_positions :: "ObjectDetection list \<Rightarrow> real \<Rightarrow> real \<Rightarrow> error + position_data list" where
  "calc_positions [] width height = Inr []"
| "calc_positions (obj # objs) width height =
     (case calculate_precise_position obj width height of
        Inl e \<Rightarrow> Inl e
      | Inr p \<Rightarrow>
          (case calc_positions objs width height of
             Inl e \<Rightarrow> Inl e
           | Inr ps \<Rightarrow> Inr (p # ps)))"

text \<open>\<^verbatim>\<open>min(xs, key=f)\<close> on a non-empty list: the first element with the least key.\<close>

fun py_min_key :: "('a \<Rightarrow> real) \<Rightarrow> 'a \<Rightarrow> 'a list \<Rightarrow> 'a" where
  "py_min_key f best [] = best"
| "py_min_key f best (v # vs) = py_min_key f (if f v < f best then v else best) vs"

text \<open>
  \<^verbatim>\<open>sum(p["confidence"] for p in positions)\<close>: a position without the key raises
  \<^verbatim>\<open>KeyError\<close>.
\<close>

fun sum_confidence :: "position_data list \<Rightarrow> error + real" where
  "sum_confidence [] = Inr 0"
| "sum_confidence (p # ps) =
     (case pos_confidence p of
        None \<Rightarrow> Inl KeyError
      | Some c \<Rightarrow>
          (case sum_confidence ps of
             Inl e \<Rightarrow> Inl e
           | Inr t \<Rightarrow> Inr (c + t)))"

definition turn_instruction :: "real \<Rightarrow> string" where
  "turn_instruction angle =
     (if \<bar>angle\<bar> < 2 then ''Continue straight ahead''
      else if \<bar>angle\<bar> < 10 then
        ''Slight adjustment: turn '' @ fmt_1f \<bar>angle\<bar> @ '' degrees '' @ side_of angle
      else if \<bar>angle\<bar> < 30 then
        ''Turn '' @ fmt_1f \<bar>angle\<bar> @ '' degrees '' @ side_of angle
      else if \<bar>angle\<bar> < 60 then
        ''Sharp turn: '' @ fmt_1f \<bar>angle\<bar> @ '' degrees '' @ side_of angle
      else ''Turn around: object is '' @ fmt_1f \<bar>angle\<bar> @ '' degrees '' @ side_of angle
             @ '' behind you'')"

definition turn_direction :: "real \<Rightarrow> string" where
  "turn_direction angle =
     (if \<bar>angle\<bar> < 2 then ''straight''
      else if \<bar>angle\<bar> < 10 then (if angle < 0 then ''slight_left'' else ''slight_right'')
      else if \<bar>angle\<bar> < 30 then (if angle < 0 then ''left'' else ''right'')
      else if \<bar>angle\<bar> < 60 then (if angle < 0 then ''sharp_left'' else ''sharp_right'')
      else (if angle < 0 then ''turn_around_left'' else ''turn_around_right''))"

definition distance_desc :: "real \<Rightarrow> string" where
  "distance_desc distance =
     (if distance < 0.5 then ''very close ('' @ fmt_1f distance @ '' meters)''
      else if distance < 1.5 then ''close ('' @ fmt_1f distance @ '' meters)''
      else if distance < 3 then ''medium distance ('' @ fmt_1f distance @ '' meters)''
      else if distance < 10 then ''far ('' @ fmt_1f distance @ '' meters)''
      else ''very far ('' @ fmt_1f distance @ '' meters)'')"

definition approach_instruction :: "real \<Rightarrow> string" where
  "approach_instruction distance =
     (if distance < 0.5 then ''Move very slowly and carefully''
      else if distance < 1.5 then ''Take a few careful steps forward''
      else if distance < 3 then ''Walk forward steadily''
      else if distance < 10 then ''Walk forward at normal pace''
      else ''Walk forward, it'' @ [CHR 0x27] @ ''s quite far'')"

definition full_instruction :: "real \<Rightarrow> real \<Rightarrow> string" where
  "full_instruction angle distance =
     (if \<bar>angle\<bar> < 2 then
        approach_instruction distance @ ''. Target is directly ahead, ''
          @ distance_desc distance @ ''.''
      else
        turn_instruction angle @ '', then '' @ py_lower (approach_instruction distance)
          @ ''. Target is '' @ distance_desc distance @ ''.'')"

text \<open>\<^verbatim>\<open>_direction_for_targets(target_objs, width, height)\<close>, main.py lines 529-605.\<close>

definition direction_for_targets ::
    "ObjectDetection list \<Rightarrow> real \<Rightarrow> real \<Rightarrow> error + direction_info" where
  "direction_for_targets target_objs width height =
     (if target_objs = [] then Inr unknown_direction
      else case calc_positions target_objs width height of
        Inl e \<Rightarrow> Inl e
      | Inr positions \<Rightarrow>
          (case positions of
             [] \<Rightarrow> Inr unknown_direction
           | p # ps \<Rightarrow>
               (let best_target = py_min_key pos_distance_meters p ps
                in case sum_confidence positions of
                     Inl e \<Rightarrow> Inl e
                   | Inr conf_sum \<Rightarrow>
                       (let avg_confidence = conf_sum / real (length positions);
                            angle = pos_angle best_target;
                            distance = pos_distance_meters best_target
                        in Inr \<lparr>di_direction = turn_direction angle,
                                di_distance = distance_desc distance,
                                di_confidence = avg_confidence,
                                di_target_count = Some (length target_objs),
                                di_navigation =
                                  Some \<lparr>nav_angle_degrees = angle,
                                        nav_distance_meters = distance,
                                        nav_turn_instruction = turn_instruction angle,
                                        nav_approach_instruction = approach_instruction distance,
                                        nav_full_instruction = full_instruction angle distance,
                                        nav_position_description = pos_position best_target,
                                        nav_coordinates = pos_coordinates best_target\<rparr>\<rparr>))))"



text \<open>A detection whose box has four elements and a pixel height other than zero.\<close>

definition has_height :: "ObjectDetection \<Rightarrow> bool" where
  "has_height obj = (case bbox4 obj of None \<Rightarrow> False | Some (x1, y1, x2, y2) \<Rightarrow> y2 \<noteq> y1)"


section \<open>Free-path finder\<close>

text \<open>
  The first loop of \<^verbatim>\<open>_free_path_direction\<close> (main.py lines 612-622): the clipped,
  normalised horizontal interval of every detection that has one.
\<close>

fun collect_intervals :: "ObjectDetection list \<Rightarrow> real \<Rightarrow> error + (real \<times> real) list" where
  "collect_intervals [] img_width = Inr []"
| "collect_intervals (obj # objs) img_width =
     (case bbox4 obj of
        None \<Rightarrow> collect_intervals objs img_width
      | Some (bx1, by1, bx2, by2) \<Rightarrow>
          (let x1 = max 0 (min img_width bx1);
               x2 = max 0 (min img_width bx2)
           in if x2 \<le> x1 then collect_intervals objs img_width
              else case py_div x1 img_width of
                Inl e \<Rightarrow> Inl e
              | Inr s \<Rightarrow>
                  (case py_div x2 img_width of
                     Inl e \<Rightarrow> Inl e
                   | Inr t \<Rightarrow>
                       (case collect_intervals objs img_width of
                          Inl e \<Rightarrow> Inl e
                        | Inr rest \<Rightarrow> Inr ((s, t) # rest)))))"

text \<open>The merging loop (lines 631-638), started at \<^verbatim>\<open>cur_s, cur_e = intervals[0]\<close>.\<close>

fun merge_intervals :: "real \<Rightarrow> real \<Rightarrow> (real \<times> real) list \<Rightarrow> (real \<times> real) list" where
  "merge_intervals cur_s cur_e [] = [(cur_s, cur_e)]"
| "merge_intervals cur_s cur_e ((s, e) # rest) =
     (if s \<le> cur_e + 0.01 then merge_intervals cur_s (max cur_e e) rest
      else (cur_s, cur_e) # merge_intervals s e rest)"

text \<open>
  \<^verbatim>\<open>intervals.sort(key=lambda x: x[0])\<close> (a stable sort, as \<^const>\<open>sort_key\<close> is) and
  the merge; \<^verbatim>\<open>intervals[0]\<close> raises on an empty list.
\<close>

definition merged_intervals :: "(real \<times> real) list \<Rightarrow> error + (real \<times> real) list" where
  "merged_intervals intervals =
     (case sort_key fst intervals of
        [] \<Rightarrow> Inl IndexError
      | (cur_s, cur_e) # rest \<Rightarrow> Inr (merge_intervals cur_s cur_e rest))"

text \<open>The gap loop (lines 641-648), \<open>prev_end\<close> starting at 0.\<close>

fun find_gaps :: "real \<Rightarrow> (real \<times> real) list \<Rightarrow> (real \<times> real) list" where
  "find_gaps prev_end [] = (if 1 - prev_end > 0.05 then [(prev_end, 1)] else [])"
| "find_gaps prev_end ((s, e) # rest) =
     (if s - prev_end > 0.05 then (prev_end, s) # find_gaps e rest else find_gaps e rest)"

text \<open>\<^verbatim>\<open>max(xs, key=f)\<close> on a non-empty list: the first element with the greatest key.\<close>

fun py_max_key :: "('a \<Rightarrow> real) \<Rightarrow> 'a \<Rightarrow> 'a list \<Rightarrow> 'a" where
  "py_max_key f best [] = best"
| "py_max_key f best (v # vs) = py_max_key f (if f best < f v then v else best) vs"

definition left_coverage :: "(real \<times> real) list \<Rightarrow> real" where
  "left_coverage merged =
     sum_list (map (\<lambda>(s, e). max 0 (min e 0.5 - s)) (filter (\<lambda>(s, e). s < 0.5) merged))"

definition right_coverage :: "(real \<times> real) list \<Rightarrow> real" where
  "right_coverage merged =
     sum_list (map (\<lambda>(s, e). max 0 (e - max s 0.5)) (filter (\<lambda>(s, e). e > 0.5) merged))"

text \<open>The direction of the widest gap from the offset of its centre (lines 663-678).\<close>

definition gap_direction :: "real \<Rightarrow> string" where
  "gap_direction rel =
     (if \<bar>rel\<bar> < 0.06 then ''center''
      else if rel < - 0.3 then ''hard left''
      else if rel < - 0.15 then ''left''
      else if rel < - 0.06 then ''slightly left''
      else if rel > 0.3 then ''hard right''
      else if rel > 0.15 then ''right''
      else if rel > 0.06 then ''slightly right''
      else ''center'')"

text \<open>\<^verbatim>\<open>_nearest_obstacle_distance(objects)\<close>, main.py lines 684-693.\<close>

definition distance_order :: "string list" where
  "distance_order =
     [''very close'', ''close'', ''medium'', ''far'', ''very far'', ''unknown'', ''clear'']"

fun index_of :: "'a \<Rightarrow> 'a list \<Rightarrow> nat" where
  "index_of v [] = 0"
| "index_of v (u # us) = (if u = v then 0 else Suc (index_of v us))"

fun nearest_loop :: "ObjectDetection list \<Rightarrow> nat \<Rightarrow> string \<Rightarrow> error + string" where
  "nearest_loop [] best_rank best = Inr best"
| "nearest_loop (obj # objs) best_rank best =
     (case estimate_distance obj 480 of
        Inl e \<Rightarrow> Inl e
      | Inr d \<Rightarrow>
          (if d \<in> set distance_order \<and> index_of d distance_order < best_rank
           then nearest_loop objs (index_of d distance_order) d
           else nearest_loop objs best_rank best))"

definition nearest_obstacle_distance :: "ObjectDetection list \<Rightarrow> error + string" where
  "nearest_obstacle_distance objects = nearest_loop objects (length distance_order) ''clear''"

text \<open>\<^verbatim>\<open>_free_path_direction(objects, img_width)\<close>, main.py lines 608-681.\<close>

definition free_path_direction :: "ObjectDetection list \<Rightarrow> real \<Rightarrow> error + direction_info" where
  "free_path_direction objects img_width =
     (case collect_intervals objects img_width of
        Inl e \<Rightarrow> Inl e
      | Inr intervals \<Rightarrow>
          (if intervals = [] then
             Inr \<lparr>di_direction = ''center'', di_distance = ''clear'', di_confidence = 0.5,
                  di_target_count = None, di_navigation = None\<rparr>
           else case merged_intervals intervals of
             Inl e \<Rightarrow> Inl e
           | Inr merged \<Rightarrow>
               (case find_gaps 0 merged of
                  [] \<Rightarrow>
                    (let direction =
                           (if left_coverage merged < right_coverage merged
                            then ''left'' else ''right'')
                     in case nearest_obstacle_distance objects of
                          Inl e \<Rightarrow> Inl e
                        | Inr nearest_distance \<Rightarrow>
                            Inr \<lparr>di_direction = direction, di_distance = nearest_distance,
                                 di_confidence = 0.3, di_target_count = None,
                                 di_navigation = None\<rparr>)
                | g # gs \<Rightarrow>
                    (let widest = py_max_key (\<lambda>g. snd g - fst g) g gs;
                         gap_center = (fst widest + snd widest) / 2;
                         rel = gap_center - 0.5;
                         direction = gap_direction rel
                     in case nearest_obstacle_distance objects of
                          Inl e \<Rightarrow> Inl e
                        | Inr nearest_distance \<Rightarrow>
                            Inr \<lparr>di_direction = direction, di_distance = nearest_distance,
                                 di_confidence = 0.45, di_target_count = Some 0,
                                 di_navigation = None\<rparr>))))"

text \<open>The direction labels of the free-path finder.\<close>

definition free_path_labels :: "string list" where
  "free_path_labels =
     [''center'', ''slightly left'', ''slightly right'', ''left'', ''right'',
      ''hard left'', ''hard right'']"

text \<open>A detection projects a horizontal interval: its clipped box has positive width.\<close>

definition projects_interval :: "real \<Rightarrow> ObjectDetection \<Rightarrow> bool" where
  "projects_interval img_width obj =
     (case bbox4 obj of
        None \<Rightarrow> False
      | Some (bx1, by1, bx2, by2) \<Rightarrow>
          max 0 (min img_width bx1) < max 0 (min img_width bx2))"




section \<open>Obstacle analyzer\<close>

text \<open>The dictionaries appended to \<^verbatim>\<open>obstacles\<close>.\<close>

record obstacle =
  ob_name :: string
  ob_distance :: string
  ob_position :: string
  ob_threat :: string
  ob_confidence :: real

text \<open>
  The body of the loop of \<^verbatim>\<open>_analyze_obstacles\<close> (main.py lines 704-738) for a
  detection that passed the guard \<^verbatim>\<open>if o in target_objs or not o.bbox: continue\<close>, its
  box being \<open>b\<close>: unpacking a box that has not four elements raises
  \<^verbatim>\<open>ValueError\<close>; the result is the obstacle appended, if any.
\<close>

definition analyze_one ::
    "ObjectDetection \<Rightarrow> real list \<Rightarrow> real \<Rightarrow> real \<Rightarrow> error + obstacle option" where
  "analyze_one obj b img_width img_height =
     (case unpack4 b of
        None \<Rightarrow> Inl ValueError
      | Some (x1, y1, x2, y2) \<Rightarrow>
          (let cx = (x1 + x2) / 2;
               cy = (y1 + y2) / 2;
               width = x2 - x1;
               height = y2 - y1;
               area = width * height
           in case py_div cx img_width of
                Inl e \<Rightarrow> Inl e
              | Inr rel_x \<Rightarrow>
                  (case py_div cy img_height of
                     Inl e \<Rightarrow> Inl e
                   | Inr rel_y \<Rightarrow>
                       (case estimate_distance obj img_height of
                          Inl e \<Rightarrow> Inl e
                        | Inr distance \<Rightarrow>
                            (let in_path = (0.25 < rel_x \<and> rel_x < 0.75 \<and> rel_y > 0.3)
                             in case py_div area (img_width * img_height) of
                                  Inl e \<Rightarrow> Inl e
                                | Inr rel_area \<Rightarrow>
                                    (let threat =
                                           (if rel_area > 0.15 then ''high''
                                            else if rel_area > 0.08 then ''medium''
                                            else ''low'')
                                     in if in_path \<and>
                                           (threat \<in> set [''high'', ''medium''] \<or>
                                            distance \<in> set [''very close'', ''close''])
                                        then Inr (Some
                                          \<lparr>ob_name = name obj,
                                           ob_distance = distance,
                                           ob_position =
                                             (if rel_x < 0.4 then ''left''
                                              else if rel_x > 0.6 then ''right''
                                              else ''center''),
                                           ob_threat = threat,
                                           ob_confidence = confidence obj\<rparr>)
                                        else Inr None))))))"

text \<open>The loop over \<^verbatim>\<open>objects\<close>; \<^verbatim>\<open>not o.bbox\<close> holds for no box and for an empty one.\<close>

fun obstacles_loop ::
    "ObjectDetection list \<Rightarrow> ObjectDetection list \<Rightarrow> real \<Rightarrow> real \<Rightarrow> error + obstacle list" where
  "obstacles_loop [] target_objs img_width img_height = Inr []"
| "obstacles_loop (obj # objs) target_objs img_width img_height =
     (if obj \<in> set target_objs \<or> bbox obj = None \<or> bbox obj = Some []
      then obstacles_loop objs target_objs img_width img_height
      else case analyze_one obj (the (bbox obj)) img_width img_height of
        Inl e \<Rightarrow> Inl e
      | Inr found \<Rightarrow>
          (case obstacles_loop objs target_objs img_width img_height of
             Inl e \<Rightarrow> Inl e
           | Inr rest \<Rightarrow> Inr (case found of None \<Rightarrow> rest | Some ob \<Rightarrow> ob # rest)))"

text \<open>The sort key: the two rank dictionaries with their defaults 5 and 3.\<close>

definition distance_rank :: "string \<Rightarrow> nat" where
  "distance_rank d =
     (case map_of [(''very close'', 0), (''close'', 1), (''medium'', 2), (''far'', 3),
                   (''very far'', 4)] d of
        Some k \<Rightarrow> k
      | None \<Rightarrow> 5)"

definition threat_rank :: "string \<Rightarrow> nat" where
  "threat_rank t =
     (case map_of [(''high'', 0), (''medium'', 1), (''low'', 2)] t of
        Some k \<Rightarrow> k
      | None \<Rightarrow> 3)"

definition obstacle_sort_key :: "obstacle \<Rightarrow> nat \<times> nat" where
  "obstacle_sort_key ob = (distance_rank (ob_distance ob), threat_rank (ob_threat ob))"

text \<open>
  \<^verbatim>\<open>_analyze_obstacles(objects, target_objs, img_width, img_height)\<close>, main.py lines
  696-753: the loop, the stable sort by the key (pairs compare lexicographically) and the
  slice \<^verbatim>\<open>[:3]\<close>.
\<close>

definition analyze_obstacles ::
    "ObjectDetection list \<Rightarrow> ObjectDetection list \<Rightarrow> real \<Rightarrow> real \<Rightarrow> error + obstacle list" where
  "analyze_obstacles objects target_objs img_width img_height =
     (case obstacles_loop objects target_objs img_width img_height of
        Inl e \<Rightarrow> Inl e
      | Inr obstacles \<Rightarrow> Inr (take 3 (sort_key obstacle_sort_key obstacles)))"

text \<open>
  The order of the sort spelled out: by distance rank, then by threat rank.
\<close>

definition obstacle_before :: "obstacle \<Rightarrow> obstacle \<Rightarrow> bool" where
  "obstacle_before a b \<longleftrightarrow>
     distance_rank (ob_distance a) < distance_rank (ob_distance b) \<or>
     (distance_rank (ob_distance a) = distance_rank (ob_distance b) \<and>
      threat_rank (ob_threat a) \<le> threat_rank (ob_threat b))"

text \<open>A box the obstacle loop can use or skip: absent, empty, or of four elements.\<close>

definition usable_box :: "ObjectDetection \<Rightarrow> bool" where
  "usable_box obj =
     (case bbox obj of None \<Rightarrow> True | Some b \<Rightarrow> b = [] \<or> length b = 4)"

section \<open>Target extractor\<close>

text \<open>
  Whitespace of \<^verbatim>\<open>str.split()\<close> and \<^verbatim>\<open>str.strip()\<close>, on ASCII: space, the
  control characters 9 to 13 and 28 to 31.
\<close>

definition is_space :: "char \<Rightarrow> bool" where
  "is_space c \<longleftrightarrow>
     c \<in> set [CHR '' '', CHR 0x09, CHR 0x0A, CHR 0x0B, CHR 0x0C, CHR 0x0D,
               CHR 0x1C, CHR 0x1D, CHR 0x1E, CHR 0x1F]"

fun split_ws :: "string \<Rightarrow> string \<Rightarrow> string list" where
  "split_ws cur [] = (if cur = [] then [] else [cur])"
| "split_ws cur (c # cs) =
     (if is_space c then (if cur = [] then split_ws [] cs else cur # split_ws [] cs)
      else split_ws (cur @ [c]) cs)"

definition py_split :: "string \<Rightarrow> string list" where
  "py_split s = split_ws [] s"

definition strip_chars :: "(char \<Rightarrow> bool) \<Rightarrow> string \<Rightarrow> string" where
  "strip_chars stripped s = rev (dropWhile stripped (rev (dropWhile stripped s)))"

definition py_strip :: "string \<Rightarrow> string" where
  "py_strip s = strip_chars is_space s"

definition stop_words :: "string list" where
  "stop_words =
     [''the'', ''a'', ''an'', ''to'', ''is'', ''are'', ''there'', ''on'', ''at'', ''my'', ''in'',
      ''for'', ''of'', ''do'', ''i'', ''can'', ''you'', ''me'', ''near'']"

text \<open>
  \<^verbatim>\<open>list(dict.fromkeys(nouns))\<close>: duplicates removed, the first occurrence of each
  kept (\<^const>\<open>remdups\<close> keeps the last one).
\<close>

definition dedup_first :: "'a list \<Rightarrow> 'a list" where
  "dedup_first vs = rev (remdups (rev vs))"

text \<open>\<^verbatim>\<open>_extract_targets(question)\<close>, main.py lines 394-401.\<close>

definition extract_targets :: "string \<Rightarrow> string list" where
  "extract_targets question =
     (let q = py_lower question;
          tokens = map (strip_chars (\<lambda>c. c \<in> set ''?.,! '')) (py_split q);
          nouns = filter (\<lambda>t. t \<noteq> [] \<and> t \<notin> set stop_words \<and> length t > 2) tokens
      in take 3 (dedup_first nouns))"

section \<open>Instruction synthesizer\<close>

definition emdash :: string where
  "emdash = [CHR 0xE2, CHR 0x80, CHR 0x94]"

definition apostrophe :: string where
  "apostrophe = [CHR 0x27]"

text \<open>The target reference of \<^verbatim>\<open>_path_smoothing_instruction\<close> (lines 763-773).\<close>

definition target_ref_of :: "string option \<Rightarrow> nat \<Rightarrow> string" where
  "target_ref_of target_name target_count =
     (case target_name of
        None \<Rightarrow> ''it''
      | Some n \<Rightarrow>
          (if n \<noteq> [] \<and> n \<noteq> ''path'' then
             (if target_count > 1 then ''the '' @ n @ ''s'' else py_strip (''the '' @ n))
           else if n = ''path'' then ''the clear path''
           else ''it''))"

text \<open>The dictionary \<^verbatim>\<open>variants\<close> (lines 776-826), by direction, then by distance.\<close>

definition variants :: "string \<Rightarrow> (string \<times> (string \<times> string list) list) list" where
  "variants target_ref =
     [
      (''center'',
        [
         (''very close'',
          [target_ref @ '' is right in front. Slow and steady.'',
           ''Almost there'' @ emdash @ target_ref @ '' directly ahead, ease forward.'']),
         (''close'',
          [target_ref @ '' straight ahead, move forward carefully.'',
           ''Head straight'' @ emdash @ target_ref @ '' is just ahead.'']),
         (''medium'',
          [target_ref @ '' ahead, continue forward.'',
           ''Keep going straight toward '' @ target_ref @ ''.'']),
         (''far'',
          [target_ref @ '' further ahead, steady pace.'',
           ''Stay centered and continue forward.'']),
         (''very far'',
          [target_ref @ '' is far ahead, you can walk confidently.'',
           ''Long way ahead'' @ emdash @ ''proceed straight.''])]),
      (''slightly left'',
        [
         (''very close'',
          [target_ref @ '' just left, small step left then forward.'',
           ''Tiny left adjustment, then move ahead.'']),
         (''close'',
          [''Drift a little left toward '' @ target_ref @ ''.'',
           ''Slight left, then forward.'']),
         (''medium'',
          [''Slight left adjustment toward '' @ target_ref @ ''.'',
           ''Nudge left and go ahead.'']),
         (''far'',
          [''Angle slightly left to line up with '' @ target_ref @ ''.'',
           ''Veer gently left then continue.'']),
         (''very far'',
          [''Turn a touch left and continue toward it.'',
           ''Bring your direction a bit left and walk on.''])]),
      (''left'',
        [
         (''very close'',
          [target_ref @ '' is close on your left'' @ emdash @ ''turn carefully.'',
           ''Slow left turn, '' @ target_ref @ '' is right there.'']),
         (''close'',
          [''Turn left and move forward slowly.'',
           ''Left turn now, then straight.'']),
         (''medium'',
          [''Turn left toward '' @ target_ref @ '' then walk ahead.'',
           ''Face left and proceed forward.'']),
         (''far'',
          [''Turn left and advance toward it.'',
           ''Rotate left then continue walking.'']),
         (''very far'',
          [''Head left and keep a steady pace.'',
           ''Take a left heading and continue.''])]),
      (''hard left'',
        [
         (''very close'',
          [''Sharp left needed now'' @ emdash @ ''go slowly.'',
           ''Hard left turn here, take care.'']),
         (''close'',
          [''Make a firm left turn toward '' @ target_ref @ ''.'',
           ''Strong left turn, then forward.'']),
         (''medium'',
          [''Hard left to align, then continue.'',
           ''Pivot left sharply and proceed.'']),
         (''far'',
          [''Big left turn, then head forward.'',
           ''Swing left strongly and advance.'']),
         (''very far'',
          [''Hard left then steady walk ahead.'',
           ''Rotate left fully and continue.''])]),
      (''slightly right'',
        [
         (''very close'',
          [''Just right a little, then ahead.'',
           ''Tiny step right then move forward.'']),
         (''close'',
          [''Ease slightly right toward '' @ target_ref @ ''.'',
           ''Shift a bit right then continue.'']),
         (''medium'',
          [''Nudge right and go on.'',
           ''Slight right correction then forward.'']),
         (''far'',
          [''Angle a little right then continue.'',
           ''Veer gently right toward it.'']),
         (''very far'',
          [''Turn a touch right and walk forward.'',
           ''Bring your direction a bit right and proceed.''])]),
      (''right'',
        [
         (''very close'',
          [target_ref @ '' close on your right'' @ emdash @ ''turn carefully.'',
           ''Slow right turn, it'' @ apostrophe @ ''s right there.'']),
         (''close'',
          [''Turn right and move forward slowly.'',
           ''Right turn now, then straight ahead.'']),
         (''medium'',
          [''Turn right toward '' @ target_ref @ '' then walk ahead.'',
           ''Face right and proceed forward.'']),
         (''far'',
          [''Turn right and advance toward it.'',
           ''Rotate right then continue walking.'']),
         (''very far'',
          [''Head right and keep a steady pace.'',
           ''Take a right heading and continue.''])]),
      (''hard right'',
        [
         (''very close'',
          [''Sharp right needed now'' @ emdash @ ''go slowly.'',
           ''Hard right turn here, take care.'']),
         (''close'',
          [''Make a firm right turn toward '' @ target_ref @ ''.'',
           ''Strong right turn, then forward.'']),
         (''medium'',
          [''Hard right to align, then continue.'',
           ''Pivot right sharply and proceed.'']),
         (''far'',
          [''Big right turn, then head forward.'',
           ''Swing right strongly and advance.'']),
         (''very far'',
          [''Hard right then steady walk ahead.'',
           ''Rotate right fully and continue.''])])]"

text \<open>
  \<^verbatim>\<open>variants.get(direction, {}).get(distance, [f"Move {direction} ({distance})."])\<close>.
\<close>

definition phrase_list :: "string \<Rightarrow> string \<Rightarrow> string \<Rightarrow> string list" where
  "phrase_list target_ref direction distance =
     (case map_of (case map_of (variants target_ref) direction of
                     None \<Rightarrow> []
                   | Some row \<Rightarrow> row) distance of
        None \<Rightarrow> [''Move '' @ direction @ '' ('' @ distance @ '').'']
      | Some phrases \<Rightarrow> phrases)"

text \<open>
  \<^verbatim>\<open>idx = (abs(hash(direction + distance)) % len(phrase_list)) if phrase_list else 0\<close>.
  \<^verbatim>\<open>hash\<close> is the interpreter's hash of a string: it is not code of the repository
  and Python fixes it for the lifetime of one interpreter process, so it is a parameter.
\<close>

definition variant_index :: "(string \<Rightarrow> int) \<Rightarrow> string \<Rightarrow> string \<Rightarrow> string list \<Rightarrow> nat" where
  "variant_index str_hash direction distance phrases =
     (if phrases \<noteq> [] then nat (\<bar>str_hash (direction @ distance)\<bar> mod int (length phrases))
      else 0)"

fun py_join :: "string \<Rightarrow> string list \<Rightarrow> string" where
  "py_join sep [] = []"
| "py_join sep [v] = v"
| "py_join sep (v # vs) = v @ sep @ py_join sep vs"

definition ends_with_punct :: "string \<Rightarrow> bool" where
  "ends_with_punct s \<longleftrightarrow> s \<noteq> [] \<and> last s \<in> set ''.!?''"

definition is_close :: "obstacle \<Rightarrow> bool" where
  "is_close obs \<longleftrightarrow> ob_distance obs \<in> set [''very close'', ''close'']"

text \<open>
  \<^verbatim>\<open>_path_smoothing_instruction(direction_info, obstacles, target_name)\<close>, main.py lines
  756-852. \<^verbatim>\<open>phrase_list[idx]\<close> is within range: the index is a remainder by the
  length of a non-empty list.
\<close>

definition path_smoothing_instruction ::
    "(string \<Rightarrow> int) \<Rightarrow> direction_info \<Rightarrow> obstacle list \<Rightarrow> string option \<Rightarrow> string" where
  "path_smoothing_instruction str_hash direction_info obstacles target_name =
     (let direction = di_direction direction_info;
          distance = di_distance direction_info;
          confidence = di_confidence direction_info;
          target_count = (case di_target_count direction_info of None \<Rightarrow> 0 | Some n \<Rightarrow> n);
          target_ref = target_ref_of target_name target_count;
          phrases = phrase_list target_ref direction distance;
          idx = variant_index str_hash direction distance phrases;
          base_instruction = phrases ! idx;
          close_obs = filter is_close obstacles;
          base_instruction =
            (if obstacles \<noteq> [] \<and> close_obs \<noteq> [] then
               base_instruction @ ''. Watch for ''
                 @ py_join '', '' (map (\<lambda>ob. ob_name ob @ '' '' @ ob_position ob) (take 2 close_obs))
                 @ ''.''
             else base_instruction);
          base_instruction =
            (if confidence < 0.4 then
               base_instruction @ '' I'' @ apostrophe @ ''m not fully sure'' @ emdash
                 @ ''double check.''
             else base_instruction);
          base_instruction = py_strip base_instruction
      in if \<not> ends_with_punct base_instruction then base_instruction @ ''.''
         else base_instruction)"

section \<open>Guidance orchestrator\<close>

text \<open>\<^verbatim>\<open>t in s\<close> on strings: \<open>t\<close> occurs in \<open>s\<close> as a contiguous piece.\<close>

fun contains :: "string \<Rightarrow> string \<Rightarrow> bool" where
  "contains t [] \<longleftrightarrow> t = []"
| "contains t (c # cs) \<longleftrightarrow> take (length t) (c # cs) = t \<or> contains t cs"

text \<open>The matching loop of \<^verbatim>\<open>_compute_guidance\<close> (main.py lines 878-884).\<close>

fun find_target :: "string list \<Rightarrow> ObjectDetection list \<Rightarrow> string option \<times> ObjectDetection list" where
  "find_target [] objects = (None, [])"
| "find_target (t # ts) objects =
     (let matches = filter (\<lambda>obj. contains t (py_lower (name obj))) objects
      in if matches \<noteq> [] then (Some t, matches) else find_target ts objects)"

text \<open>
  \<^verbatim>\<open>direction_info.update(open_path)\<close>: the keys of \<open>open_path\<close> overwrite, the
  others stay.
\<close>

definition dict_update :: "direction_info \<Rightarrow> direction_info \<Rightarrow> direction_info" where
  "dict_update d u =
     \<lparr>di_direction = di_direction u, di_distance = di_distance u,
      di_confidence = di_confidence u,
      di_target_count = (case di_target_count u of None \<Rightarrow> di_target_count d | Some n \<Rightarrow> Some n),
      di_navigation = (case di_navigation u of None \<Rightarrow> di_navigation d | Some n \<Rightarrow> Some n)\<rparr>"

text \<open>The dictionary returned by \<^verbatim>\<open>_compute_guidance\<close>.\<close>

record guidance =
  gr_target :: "string option"
  gr_direction :: string
  gr_distance :: string
  gr_confidence :: real
  gr_instruction :: string
  gr_obstacles :: "obstacle list"
  gr_target_count :: nat
  gr_navigation_data :: "navigation option"
  gr_precise_positioning :: bool

text \<open>The instruction of the precise path (lines 902-910).\<close>

definition precise_instruction :: "navigation \<Rightarrow> obstacle list \<Rightarrow> string" where
  "precise_instruction nav_data obstacles =
     (let instruction = nav_full_instruction nav_data
      in case filter is_close obstacles of
           [] \<Rightarrow> instruction
         | first_close # others \<Rightarrow>
             instruction @ '' Caution: '' @ ob_name first_close @ '' detected ''
               @ ob_position first_close @ ''.'')"

text \<open>
  \<^verbatim>\<open>_compute_guidance(objects, question, img_width, img_height)\<close>, main.py lines
  872-925.
\<close>

definition compute_guidance ::
    "(string \<Rightarrow> int) \<Rightarrow> ObjectDetection list \<Rightarrow> string \<Rightarrow> real \<Rightarrow> real \<Rightarrow> error + guidance" where
  "compute_guidance str_hash objects question img_width img_height =
     (let targets = extract_targets question;
          (target_name, target_objs) = find_target targets objects
      in case direction_for_targets target_objs img_width img_height of
           Inl e \<Rightarrow> Inl e
         | Inr direction_info \<Rightarrow>
             (case (if di_direction direction_info = ''unknown'' then
                      (case free_path_direction objects img_width of
                         Inl e \<Rightarrow> Inl e
                       | Inr open_path \<Rightarrow>
                           Inr (dict_update direction_info open_path,
                                (case target_name of
                                   None \<Rightarrow> Some ''path''
                                 | Some n \<Rightarrow> if n = [] then Some ''path'' else Some n)))
                    else Inr (direction_info, target_name)) of
                Inl e \<Rightarrow> Inl e
              | Inr (direction_info, target_name) \<Rightarrow>
                  (case analyze_obstacles objects target_objs img_width img_height of
                     Inl e \<Rightarrow> Inl e
                   | Inr obstacles \<Rightarrow>
                       (let instruction =
                              (case di_navigation direction_info of
                                 Some nav_data \<Rightarrow> precise_instruction nav_data obstacles
                               | None \<Rightarrow>
                                   path_smoothing_instruction str_hash direction_info obstacles
                                     target_name)
                        in Inr \<lparr>gr_target = target_name,
                                gr_direction = di_direction direction_info,
                                gr_distance = di_distance direction_info,
                                gr_confidence = di_confidence direction_info,
                                gr_instruction = instruction,
                                gr_obstacles = obstacles,
                                gr_target_count =
                                  (case di_target_count direction_info of
                                     None \<Rightarrow> 0 | Some n \<Rightarrow> n),
                                gr_navigation_data = di_navigation direction_info,
                                gr_precise_positioning = True\<rparr>))))"

text \<open>
  The match rule as the specification words it: the keyword is a substring of the label
  or the label is a substring of the keyword, case-insensitively.
\<close>

definition spec_matches :: "string \<Rightarrow> ObjectDetection \<Rightarrow> bool" where
  "spec_matches keyword obj \<longleftrightarrow>
     contains (py_lower keyword) (py_lower (name obj)) \<or>
     contains (py_lower (name obj)) (py_lower keyword)"


text \<open>
  The number of variants in every cell of a phrase table, and the cell size found by the
  two lookups of \<open>phrase_list\<close> (1 for the default phrase).
\<close>

definition cell_sizes ::
    "(string \<times> (string \<times> string list) list) list \<Rightarrow> (string \<times> (string \<times> nat) list) list" where
  "cell_sizes table =
     map (\<lambda>(d, row). (d, map (\<lambda>(ds, phrases). (ds, length phrases)) row)) table"

definition two_variants :: "(string \<times> nat) list" where
  "two_variants =
     [(''very close'', 2), (''close'', 2), (''medium'', 2), (''far'', 2), (''very far'', 2)]"

definition cell_size :: "(string \<times> (string \<times> nat) list) list \<Rightarrow> string \<Rightarrow> string \<Rightarrow> nat" where
  "cell_size sizes d ds =
     (case map_of (case map_of sizes d of None \<Rightarrow> [] | Some row \<Rightarrow> row) ds of
        None \<Rightarrow> 1
      | Some n \<Rightarrow> n)"



text \<open>The instruction of a result, for stating what a call returns.\<close>

definition instruction_of :: "error + guidance \<Rightarrow> error + string" where
  "instruction_of res = (case res of Inl e \<Rightarrow> Inl e | Inr r \<Rightarrow> Inr (gr_instruction r))"


section \<open>Properties of the distance classifier\<close>

lemma unpack4_Some: "unpack4 b = Some (x1, y1, x2, y2) \<longleftrightarrow> b = [x1, y1, x2, y2]"
  by (cases b rule: unpack4.cases) auto

lemma unpack4_None: "unpack4 b = None \<longleftrightarrow> length b \<noteq> 4"
  by (cases b rule: unpack4.cases) auto

lemma bbox4_Some: "bbox4 obj = Some (x1, y1, x2, y2) \<longleftrightarrow> bbox obj = Some [x1, y1, x2, y2]"
  by (auto simp: bbox4_def unpack4_Some split: option.splits)

lemma spec_distance_label_in: "spec_distance_label a b \<in> set distance_labels"
  by (simp add: spec_distance_label_def distance_labels_def)

lemma estimate_distance_eq:
  "img_height \<noteq> 0 \<Longrightarrow>
   estimate_distance obj img_height =
     Inr (case bbox4 obj of
            None \<Rightarrow> ''unknown''
          | Some (x1, y1, x2, y2) \<Rightarrow>
              spec_distance_label ((y2 - y1) / img_height) (y2 / img_height))"
  by (simp add: estimate_distance_def py_div_def spec_distance_label_def Let_def
      split: option.splits prod.splits)

text \<open>
  C6 (as the code has it). For a frame height other than zero the distance classifier
  returns one of the six labels very close, close, medium, far, very far, unknown. A
  detection whose box is missing, empty or not of four elements gets unknown; every
  four-element box, also one of zero or negative height, is classified by the descending
  thresholds on \<open>(rel_height, rel_bottom)\<close>.
\<close>

theorem estimate_distance_labels:
  assumes "img_height \<noteq> 0"
  shows "\<exists>l. estimate_distance obj img_height = Inr l \<and> l \<in> set distance_labels \<and>
           (bbox4 obj = None \<longrightarrow> l = ''unknown'') \<and>
           (\<forall>x1 y1 x2 y2. bbox obj = Some [x1, y1, x2, y2] \<longrightarrow>
              l = spec_distance_label ((y2 - y1) / img_height) (y2 / img_height))"
proof (cases "bbox4 obj")
  case None
  then have "\<And>x1 y1 x2 y2. bbox obj \<noteq> Some [x1, y1, x2, y2]"
    by (auto simp: bbox4_def)
  with None show ?thesis
    using assms by (simp add: estimate_distance_eq distance_labels_def)
next
  case (Some q)
  obtain x1 y1 x2 y2 where q: "q = (x1, y1, x2, y2)"
    by (cases q) auto
  with Some have "bbox obj = Some [x1, y1, x2, y2]"
    by (simp add: bbox4_Some)
  then show ?thesis
    using assms Some q spec_distance_label_in by (simp add: estimate_distance_eq)
qed

theorem estimate_distance_labels_witness:
  "(480 :: real) \<noteq> 0 \<and>
   estimate_distance (detection ''person'' 0.9 [200, 100, 440, 460]) 480 = Inr ''very close'' \<and>
   estimate_distance (detection ''person'' 0.9 [200, 100, 440]) 480 = Inr ''unknown''"
proof -
  have h: "(480 :: real) \<noteq> 0" by simp
  show ?thesis
    using estimate_distance_labels [OF h, of "detection ''person'' 0.9 [200, 100, 440, 460]"]
      estimate_distance_labels [OF h, of "detection ''person'' 0.9 [200, 100, 440]"]
    by (simp add: detection_def bbox4_def spec_distance_label_def)
qed

text \<open>
  A four-element box of zero pixel height is not reported as unknown: the classifier
  returns very far for it.
\<close>

theorem estimate_distance_degenerate_counterexample:
  "estimate_distance (detection ''person'' 0.9 [0, 0, 10, 0]) 480 = Inr ''very far'' \<and>
   estimate_distance (detection ''person'' 0.9 [0, 0, 10, 0]) 480 \<noteq> Inr ''unknown''"
  by (simp add: estimate_distance_def detection_def bbox4_def py_div_def)

section \<open>Properties of the precise-position computation\<close>







lemma precise_position_zero_height:
  assumes "bbox obj = Some [x1, y1, x2, y1]" and "img_width \<noteq> 0"
  shows "calculate_precise_position obj img_width img_height = Inl ZeroDivisionError"
  using assms by (simp add: calculate_precise_position_def bbox4_def py_div_def)

text \<open>
  C2 (the code at a box of zero pixel height). The claim asks for the zeroed result with
  position unknown; on the detection \<^verbatim>\<open>person\<close> with box \<^verbatim>\<open>[10, 20, 30, 20]\<close> in a
  640 by 480 frame the division \<^verbatim>\<open>(real_size * focal_length_approx) / height\<close> raises
  \<^verbatim>\<open>ZeroDivisionError\<close>.
\<close>

theorem precise_position_zero_height_raises:
  "calculate_precise_position (detection ''person'' 0.9 [10, 20, 30, 20]) 640 480
     = Inl ZeroDivisionError"
  by (simp add: calculate_precise_position_def detection_def bbox4_def py_div_def)

lemma precise_position_returns:
  assumes "bbox obj = Some [x1, y1, x2, y2]" and "img_width \<noteq> 0" and "y2 \<noteq> y1"
  shows "\<exists>r. calculate_precise_position obj img_width img_height = Inr r \<and>
           pos_angle r = py_round1 (((x1 + x2) / 2 - img_width / 2) / (img_width / 60)) \<and>
           pos_distance_meters r =
             py_round1 (max 0.5 (min (real_size_of (name obj) * img_height / (y2 - y1)) 100)) \<and>
           pos_confidence r = Some (confidence obj)"
  using assms by (simp add: calculate_precise_position_def bbox4_def py_div_def Let_def)




section \<open>Properties of the direction resolver\<close>








lemma has_height_returns:
  assumes "has_height t" and "w \<noteq> 0"
  shows "\<exists>p. calculate_precise_position t w h = Inr p \<and> pos_confidence p = Some (confidence t)"
proof -
  from assms(1) obtain x1 y1 x2 y2 where "bbox4 t = Some (x1, y1, x2, y2)" "y2 \<noteq> y1"
    by (auto simp: has_height_def split: option.splits)
  then have "bbox t = Some [x1, y1, x2, y2]" by (simp add: bbox4_Some)
  from precise_position_returns [OF this assms(2) \<open>y2 \<noteq> y1\<close>, of h] show ?thesis by auto
qed

lemma calc_positions_returns:
  assumes "list_all has_height ts" and "w \<noteq> 0"
  shows "\<exists>ps. calc_positions ts w h = Inr ps \<and> length ps = length ts \<and>
           sum_confidence ps = Inr (sum_list (map confidence ts))"
  using assms(1)
proof (induction ts)
  case Nil
  show ?case by simp
next
  case (Cons t ts)
  then obtain ps where ps: "calc_positions ts w h = Inr ps" "length ps = length ts"
      "sum_confidence ps = Inr (sum_list (map confidence ts))"
    by auto
  from Cons.prems have "has_height t" by simp
  from has_height_returns [OF this assms(2), of h] obtain p
    where p: "calculate_precise_position t w h = Inr p" "pos_confidence p = Some (confidence t)"
    by auto
  from ps p show ?case by simp
qed

lemma direction_for_targets_returns:
  assumes "list_all has_height ts" and "w \<noteq> 0"
  shows "\<exists>r. direction_for_targets ts w h = Inr r"
proof -
  from calc_positions_returns [OF assms, of h] obtain ps
    where ps: "calc_positions ts w h = Inr ps" "length ps = length ts"
      "sum_confidence ps = Inr (sum_list (map confidence ts))"
    by auto
  then show ?thesis
    by (auto simp: direction_for_targets_def Let_def split: list.splits)
qed





section \<open>Properties of the free-path finder\<close>

lemma collect_intervals_total:
  "\<exists>ivs. collect_intervals objs w = Inr ivs \<and>
         (ivs = [] \<longleftrightarrow> list_all (\<lambda>obj. \<not> projects_interval w obj) objs)"
proof (induction objs)
  case Nil
  show ?case by simp
next
  case (Cons obj objs)
  then obtain ivs where ivs: "collect_intervals objs w = Inr ivs"
      "ivs = [] \<longleftrightarrow> list_all (\<lambda>obj. \<not> projects_interval w obj) objs"
    by blast
  show ?case
  proof (cases "bbox4 obj")
    case None
    with ivs show ?thesis by (simp add: projects_interval_def)
  next
    case (Some q)
    obtain bx1 by1 bx2 by2 where q: "q = (bx1, by1, bx2, by2)" by (cases q) auto
    have proj: "projects_interval w obj \<longleftrightarrow> \<not> max 0 (min w bx2) \<le> max 0 (min w bx1)"
      unfolding projects_interval_def Some q by (simp only: option.case prod.case not_le)
    show ?thesis
    proof (cases "max 0 (min w bx2) \<le> max 0 (min w bx1)")
      case True
      with Some q have "collect_intervals (obj # objs) w = collect_intervals objs w"
        by (simp add: Let_def)
      with ivs proj True show ?thesis by simp
    next
      case False
      then have "w \<noteq> 0" by auto
      with False Some q ivs have
        "\<exists>iv. collect_intervals (obj # objs) w = Inr (iv # ivs)"
        by (simp add: py_div_def Let_def)
      with proj False show ?thesis by auto
    qed
  qed
qed

lemma estimate_distance_480: "\<exists>l. estimate_distance obj 480 = Inr l"
  using estimate_distance_eq [of 480 obj] by simp

lemma nearest_loop_total: "\<exists>d. nearest_loop objs r b = Inr d"
proof (induction objs arbitrary: r b)
  case Nil
  show ?case by simp
next
  case (Cons obj objs)
  from estimate_distance_480 [of obj] obtain l where "estimate_distance obj 480 = Inr l" ..
  with Cons show ?case by simp
qed

lemma nearest_obstacle_distance_total: "\<exists>d. nearest_obstacle_distance objs = Inr d"
  unfolding nearest_obstacle_distance_def by (rule nearest_loop_total)

lemma merged_intervals_total: "ivs \<noteq> [] \<Longrightarrow> \<exists>m. merged_intervals ivs = Inr m"
proof -
  assume "ivs \<noteq> []"
  then have "length (sort_key fst ivs) \<noteq> 0" by simp
  then have "sort_key fst ivs \<noteq> []" by (simp del: length_sort)
  then show ?thesis
    by (auto simp: merged_intervals_def split: list.splits)
qed

lemma gap_direction_label: "gap_direction rel \<in> set free_path_labels"
  by (simp add: gap_direction_def free_path_labels_def)

lemma free_path_no_intervals:
  "collect_intervals objects w = Inr [] \<Longrightarrow>
   free_path_direction objects w =
     Inr \<lparr>di_direction = ''center'', di_distance = ''clear'', di_confidence = 0.5,
          di_target_count = None, di_navigation = None\<rparr>"
  by (simp add: free_path_direction_def)

lemma free_path_no_gap_eq:
  assumes "collect_intervals objects w = Inr ivs" and "merged_intervals ivs = Inr merged"
    and "find_gaps 0 merged = []" and "nearest_obstacle_distance objects = Inr d"
  shows "free_path_direction objects w =
     Inr \<lparr>di_direction = (if left_coverage merged < right_coverage merged
                          then ''left'' else ''right''),
          di_distance = d, di_confidence = 0.3,
          di_target_count = None, di_navigation = None\<rparr>"
proof -
  from assms(2) have "ivs \<noteq> []"
    by (auto simp: merged_intervals_def)
  with assms show ?thesis
    by (simp add: free_path_direction_def)
qed

lemma free_path_gap_eq:
  assumes "collect_intervals objects w = Inr ivs" and "merged_intervals ivs = Inr merged"
    and "find_gaps 0 merged = g # gs" and "nearest_obstacle_distance objects = Inr d"
  shows "free_path_direction objects w =
     Inr \<lparr>di_direction =
            gap_direction
              ((fst (py_max_key (\<lambda>g. snd g - fst g) g gs)
                + snd (py_max_key (\<lambda>g. snd g - fst g) g gs)) / 2 - 0.5),
          di_distance = d, di_confidence = 0.45,
          di_target_count = Some 0, di_navigation = None\<rparr>"
proof -
  from assms(2) have "ivs \<noteq> []"
    by (auto simp: merged_intervals_def)
  with assms show ?thesis
    by (simp add: free_path_direction_def Let_def)
qed

lemma free_path_direction_total:
  "\<exists>r. free_path_direction objects w = Inr r \<and> di_direction r \<in> set free_path_labels"
proof -
  from collect_intervals_total [of objects w] obtain ivs
    where ivs: "collect_intervals objects w = Inr ivs" by blast
  from nearest_obstacle_distance_total [of objects] obtain d
    where d: "nearest_obstacle_distance objects = Inr d" ..
  show ?thesis
  proof (cases "ivs = []")
    case True
    with ivs show ?thesis
      by (simp add: free_path_no_intervals free_path_labels_def)
  next
    case False
    from merged_intervals_total [OF this] obtain merged
      where m: "merged_intervals ivs = Inr merged" ..
    show ?thesis
    proof (cases "find_gaps 0 merged")
      case Nil
      from free_path_no_gap_eq [OF ivs m Nil d] show ?thesis
        by (simp add: free_path_labels_def)
    next
      case (Cons g gs)
      from free_path_gap_eq [OF ivs m Cons d] gap_direction_label show ?thesis
        by simp
    qed
  qed
qed






lemma free_path_no_gap_left_example:
  "free_path_direction
     [detection ''truck'' 0.9 [218, 0, 640, 480], detection ''bench'' 0.6 [0, 0, 192, 480]] 640 =
     Inr \<lparr>di_direction = ''left'', di_distance = ''very close'', di_confidence = 0.3,
          di_target_count = None, di_navigation = None\<rparr>"
  by code_simp

section \<open>Properties of the obstacle analyzer\<close>

lemma obstacles_loop_origin:
  "obstacles_loop objs ts w h = Inr obs \<Longrightarrow> ob \<in> set obs \<Longrightarrow>
   \<exists>obj \<in> set objs. obj \<notin> set ts \<and>
     (\<exists>b. bbox obj = Some b \<and> analyze_one obj b w h = Inr (Some ob))"
proof (induction objs arbitrary: obs)
  case Nil
  then show ?case by simp
next
  case (Cons obj objs)
  show ?case
  proof (cases "obj \<in> set ts \<or> bbox obj = None \<or> bbox obj = Some []")
    case True
    with Cons.prems have "obstacles_loop objs ts w h = Inr obs" by auto
    from Cons.IH [OF this Cons.prems(2)] show ?thesis by auto
  next
    case False
    then obtain b where b: "bbox obj = Some b" by auto
    from False Cons.prems(1) obtain found rest
      where f: "analyze_one obj b w h = Inr found"
        and r: "obstacles_loop objs ts w h = Inr rest"
        and o: "obs = (case found of None \<Rightarrow> rest | Some x \<Rightarrow> x # rest)"
      using b by (auto split: sum.splits)
    show ?thesis
    proof (cases "ob \<in> set rest")
      case True
      from Cons.IH [OF r True] show ?thesis by auto
    next
      case notin: False
      with o Cons.prems(2) have "found = Some ob"
        by (cases found) auto
      with f b False show ?thesis by auto
    qed
  qed
qed

lemma obstacles_loop_filter:
  "obstacles_loop objs ts w h = obstacles_loop (filter (\<lambda>obj. obj \<notin> set ts) objs) [] w h"
proof (induction objs)
  case Nil
  show ?case by simp
next
  case (Cons obj objs)
  show ?case
  proof (cases "obj \<in> set ts")
    case True
    then show ?thesis by (simp add: Cons.IH)
  next
    case False
    then show ?thesis by (simp add: Cons.IH cong: sum.case_cong)
  qed
qed

lemma obstacle_key_le:
  "obstacle_sort_key a \<le> obstacle_sort_key b \<Longrightarrow> obstacle_before a b"
  by (auto simp: obstacle_sort_key_def obstacle_before_def less_eq_prod_def)

lemma sorted_obstacles:
  "sorted_wrt obstacle_before (take 3 (sort_key obstacle_sort_key obs))"
proof -
  have "sorted (map obstacle_sort_key (sort_key obstacle_sort_key obs))"
    by (rule sorted_sort_key)
  then have "sorted_wrt (\<lambda>a b. obstacle_sort_key a \<le> obstacle_sort_key b)
               (sort_key obstacle_sort_key obs)"
    by (simp add: sorted_map)
  then have "sorted_wrt obstacle_before (sort_key obstacle_sort_key obs)"
    by (rule sorted_wrt_mono_rel [rotated]) (simp add: obstacle_key_le)
  then show ?thesis
    by (rule sorted_wrt_take)
qed

lemma analyze_one_returns:
  assumes "length b = 4" and "w \<noteq> 0" and "h \<noteq> 0"
  shows "\<exists>found. analyze_one obj b w h = Inr found"
proof -
  from assms(1) obtain q where q: "unpack4 b = Some q"
    using unpack4_None [of b] by (cases "unpack4 b") auto
  obtain x1 y1 x2 y2 where "q = (x1, y1, x2, y2)" by (cases q) auto
  moreover from estimate_distance_eq [OF assms(3), of obj]
  obtain l where "estimate_distance obj h = Inr l" by simp
  ultimately show ?thesis
    using q assms(2,3) by (simp add: analyze_one_def py_div_def Let_def)
qed

lemma obstacles_loop_returns:
  assumes "w \<noteq> 0" and "h \<noteq> 0"
  shows "list_all usable_box objs \<Longrightarrow> \<exists>obs. obstacles_loop objs ts w h = Inr obs"
proof (induction objs)
  case Nil
  show ?case by simp
next
  case (Cons obj objs)
  then obtain rest where rest: "obstacles_loop objs ts w h = Inr rest" by auto
  show ?case
  proof (cases "obj \<in> set ts \<or> bbox obj = None \<or> bbox obj = Some []")
    case True
    with rest show ?thesis by auto
  next
    case False
    then obtain b where b: "bbox obj = Some b" "b \<noteq> []" by auto
    with Cons.prems have "length b = 4" by (simp add: usable_box_def)
    from analyze_one_returns [OF this assms, of obj] obtain found
      where "analyze_one obj b w h = Inr found" ..
    with False b rest show ?thesis by simp
  qed
qed

lemma analyze_obstacles_result:
  assumes "analyze_obstacles objects ts w h = Inr obs"
  shows "length obs \<le> 3" and "sorted_wrt obstacle_before obs"
    and "\<forall>ob \<in> set obs. \<exists>obj \<in> set objects. obj \<notin> set ts \<and>
           (\<exists>b. bbox obj = Some b \<and> analyze_one obj b w h = Inr (Some ob))"
proof -
  from assms obtain all_obs where l: "obstacles_loop objects ts w h = Inr all_obs"
    and o: "obs = take 3 (sort_key obstacle_sort_key all_obs)"
    by (auto simp: analyze_obstacles_def split: sum.splits)
  show "length obs \<le> 3" unfolding o by simp
  show "sorted_wrt obstacle_before obs" unfolding o by (rule sorted_obstacles)
  show "\<forall>ob \<in> set obs. \<exists>obj \<in> set objects. obj \<notin> set ts \<and>
           (\<exists>b. bbox obj = Some b \<and> analyze_one obj b w h = Inr (Some ob))"
  proof
    fix ob assume "ob \<in> set obs"
    then have "ob \<in> set (sort_key obstacle_sort_key all_obs)"
      unfolding o by (rule in_set_takeD)
    then have "ob \<in> set all_obs" by simp
    from obstacles_loop_origin [OF l this]
    show "\<exists>obj \<in> set objects. obj \<notin> set ts \<and>
           (\<exists>b. bbox obj = Some b \<and> analyze_one obj b w h = Inr (Some ob))" .
  qed
qed


text \<open>
  C3. Whenever the obstacle analyzer returns, its list has at most 3 records, is sorted by
  distance rank and then by threat rank, and every record was produced from a detection
  of the input that is not in the target set; the targets contribute nothing at all (the
  result is that of the input without them). The analyzer does return when both frame
  dimensions are not zero and every box is absent, empty or of four elements.
\<close>

theorem analyze_obstacles_spec:
  "(\<forall>obs. analyze_obstacles objects target_objs img_width img_height = Inr obs \<longrightarrow>
      length obs \<le> 3 \<and> sorted_wrt obstacle_before obs \<and>
      (\<forall>ob \<in> set obs. \<exists>obj \<in> set objects. obj \<notin> set target_objs \<and>
         (\<exists>b. bbox obj = Some b \<and> analyze_one obj b img_width img_height = Inr (Some ob)))) \<and>
   analyze_obstacles objects target_objs img_width img_height =
     analyze_obstacles (filter (\<lambda>obj. obj \<notin> set target_objs) objects) [] img_width img_height \<and>
   (img_width \<noteq> 0 \<longrightarrow> img_height \<noteq> 0 \<longrightarrow> list_all usable_box objects \<longrightarrow>
      (\<exists>obs. analyze_obstacles objects target_objs img_width img_height = Inr obs))"
proof -
  have "analyze_obstacles objects target_objs img_width img_height =
     analyze_obstacles (filter (\<lambda>obj. obj \<notin> set target_objs) objects) [] img_width img_height"
    unfolding analyze_obstacles_def
    using obstacles_loop_filter [of objects target_objs img_width img_height] by simp
  moreover have "\<exists>obs. analyze_obstacles objects target_objs img_width img_height = Inr obs"
    if "img_width \<noteq> 0" "img_height \<noteq> 0" "list_all usable_box objects"
    using obstacles_loop_returns [OF that, of target_objs]
    by (auto simp: analyze_obstacles_def)
  ultimately show ?thesis
    using analyze_obstacles_result [of objects target_objs img_width img_height]
    by blast
qed

theorem analyze_obstacles_spec_witness:
  "(640 :: real) \<noteq> 0 \<and> (480 :: real) \<noteq> 0 \<and>
   list_all usable_box
     [detection ''person'' 0.9 [200, 100, 440, 460],
      detection ''chair'' 0.8 [250, 250, 350, 450],
      detection ''dog'' 0.7 [180, 200, 400, 470],
      detection ''car'' 0.6 [200, 150, 500, 300],
      detection ''table'' 0.5 [300, 250, 450, 440],
      detection ''bird'' 0.5 [10, 10, 20, 20]] \<and>
   analyze_obstacles
     [detection ''person'' 0.9 [200, 100, 440, 460],
      detection ''chair'' 0.8 [250, 250, 350, 450],
      detection ''dog'' 0.7 [180, 200, 400, 470],
      detection ''car'' 0.6 [200, 150, 500, 300],
      detection ''table'' 0.5 [300, 250, 450, 440],
      detection ''bird'' 0.5 [10, 10, 20, 20]]
     [detection ''person'' 0.9 [200, 100, 440, 460]] 640 480 =
     Inr [\<lparr>ob_name = ''dog'', ob_distance = ''very close'', ob_position = ''center'',
            ob_threat = ''high'', ob_confidence = 0.7\<rparr>,
          \<lparr>ob_name = ''chair'', ob_distance = ''very close'', ob_position = ''center'',
            ob_threat = ''low'', ob_confidence = 0.8\<rparr>,
          \<lparr>ob_name = ''car'', ob_distance = ''close'', ob_position = ''center'',
            ob_threat = ''medium'', ob_confidence = 0.6\<rparr>]"
proof -
  let ?objs = "[detection ''person'' 0.9 [200, 100, 440, 460],
      detection ''chair'' 0.8 [250, 250, 350, 450],
      detection ''dog'' 0.7 [180, 200, 400, 470],
      detection ''car'' 0.6 [200, 150, 500, 300],
      detection ''table'' 0.5 [300, 250, 450, 440],
      detection ''bird'' 0.5 [10, 10, 20, 20]]"
  let ?ts = "[detection ''person'' 0.9 [200, 100, 440, 460]]"
  have w: "(640 :: real) \<noteq> 0" and h: "(480 :: real) \<noteq> 0"
    by simp_all
  have u: "list_all usable_box ?objs"
    by (simp add: usable_box_def detection_def)
  from analyze_obstacles_spec [of ?objs ?ts 640 480] w h u
  obtain obs where obs: "analyze_obstacles ?objs ?ts 640 480 = Inr obs"
    by blast
  with analyze_obstacles_spec [of ?objs ?ts 640 480]
  have "length obs \<le> 3" by blast
  have "analyze_obstacles ?objs ?ts 640 480 =
     Inr [\<lparr>ob_name = ''dog'', ob_distance = ''very close'', ob_position = ''center'',
            ob_threat = ''high'', ob_confidence = 0.7\<rparr>,
          \<lparr>ob_name = ''chair'', ob_distance = ''very close'', ob_position = ''center'',
            ob_threat = ''low'', ob_confidence = 0.8\<rparr>,
          \<lparr>ob_name = ''car'', ob_distance = ''close'', ob_position = ''center'',
            ob_threat = ''medium'', ob_confidence = 0.6\<rparr>]"
    by code_simp
  with obs \<open>length obs \<le> 3\<close> w h u show ?thesis by simp
qed

section \<open>Properties of the instruction synthesizer and the orchestrator\<close>

lemma cell_sizes_variants:
  "cell_sizes (variants tr) =
     [(''center'', two_variants), (''slightly left'', two_variants), (''left'', two_variants),
      (''hard left'', two_variants), (''slightly right'', two_variants),
      (''right'', two_variants), (''hard right'', two_variants)]"
  unfolding variants_def cell_sizes_def two_variants_def by simp

lemma phrase_list_cell_size:
  "length (phrase_list tr d ds) = cell_size (cell_sizes (variants tr)) d ds"
proof -
  have outer: "map_of (cell_sizes (variants tr)) d =
      map_option (map (\<lambda>(ds, phrases). (ds, length phrases))) (map_of (variants tr) d)"
    unfolding cell_sizes_def by (simp add: map_of_map)
  show ?thesis
  proof (cases "map_of (variants tr) d")
    case None
    with outer show ?thesis
      by (simp add: phrase_list_def cell_size_def)
  next
    case (Some row)
    have inner: "map_of (map (\<lambda>(ds, phrases). (ds, length phrases)) row) ds =
        map_option length (map_of row ds)"
      by (simp add: map_of_map)
    from Some outer inner show ?thesis
      by (cases "map_of row ds") (simp_all add: phrase_list_def cell_size_def)
  qed
qed


lemma two_variants_lookup: "map_of two_variants ds = Some n \<Longrightarrow> n = 2"
  by (auto simp: two_variants_def split: if_splits)

lemma phrase_list_one_or_two:
  "length (phrase_list tr d ds) = 1 \<or> length (phrase_list tr d ds) = 2"
proof -
  let ?sizes = "cell_sizes (variants tr)"
  have row: "row = two_variants" if "map_of ?sizes d = Some row" for row
    using that unfolding cell_sizes_variants by (auto split: if_splits)
  have "cell_size ?sizes d ds = 1 \<or> cell_size ?sizes d ds = 2"
  proof (cases "map_of ?sizes d")
    case None
    then show ?thesis by (simp add: cell_size_def)
  next
    case (Some r)
    with row have r: "r = two_variants" by simp
    show ?thesis
    proof (cases "map_of two_variants ds")
      case None
      with Some r show ?thesis by (simp add: cell_size_def)
    next
      case (Some n)
      with two_variants_lookup have "n = 2" by simp
      with Some \<open>map_of ?sizes d = Some r\<close> r show ?thesis by (simp add: cell_size_def)
    qed
  qed
  then show ?thesis by (simp only: phrase_list_cell_size)
qed



lemma variant_index_in_range:
  "variant_index h d ds (phrase_list tr d ds) < length (phrase_list tr d ds)"
proof -
  from phrase_list_one_or_two [of tr d ds] have "0 < length (phrase_list tr d ds)" by auto
  then show ?thesis
    by (auto simp: variant_index_def nat_less_iff)
qed



lemma punct_normalised: "ends_with_punct (if \<not> ends_with_punct b then b @ ''.'' else b)"
  by (simp add: ends_with_punct_def)

lemma path_smoothing_ends: "ends_with_punct (path_smoothing_instruction h di obs tn)"
  unfolding path_smoothing_instruction_def Let_def by (rule punct_normalised)

lemma full_instruction_ends: "ends_with_punct (full_instruction a d)"
  by (simp add: full_instruction_def ends_with_punct_def)

lemma precise_instruction_ends:
  "ends_with_punct (nav_full_instruction nav) \<Longrightarrow> ends_with_punct (precise_instruction nav obs)"
  by (simp add: precise_instruction_def ends_with_punct_def Let_def split: list.splits)

lemma direction_for_targets_nav:
  assumes "direction_for_targets ts w h = Inr di" and "di_navigation di = Some nav"
  shows "ends_with_punct (nav_full_instruction nav)"
  using assms
  by (auto simp: direction_for_targets_def unknown_direction_def Let_def full_instruction_ends
      split: if_splits sum.splits list.splits)

lemma free_path_no_navigation:
  "free_path_direction objs w = Inr r \<Longrightarrow> di_navigation r = None"
  by (auto simp: free_path_direction_def Let_def split: if_splits sum.splits list.splits)

lemma dict_update_navigation:
  "di_navigation u = None \<Longrightarrow> di_navigation (dict_update d u) = di_navigation d"
  by (simp add: dict_update_def)

lemma compute_guidance_instruction:
  assumes "compute_guidance h objects question w ht = Inr r"
  shows "ends_with_punct (gr_instruction r)"
proof -
  obtain tn ts where ft: "find_target (extract_targets question) objects = (tn, ts)"
    by (cases "find_target (extract_targets question) objects") auto
  from assms ft obtain di where di: "direction_for_targets ts w ht = Inr di"
    by (auto simp: compute_guidance_def Let_def split: sum.splits)
  have nav: "ends_with_punct (nav_full_instruction nav)" if "di_navigation di = Some nav" for nav
    using direction_for_targets_nav [OF di that] .
  show ?thesis
  proof (cases "di_direction di = ''unknown''")
    case True
    with assms ft di obtain u obs tn' where u: "free_path_direction objects w = Inr u"
      and r: "gr_instruction r =
        (case di_navigation (dict_update di u) of
           Some nav_data \<Rightarrow> precise_instruction nav_data obs
         | None \<Rightarrow> path_smoothing_instruction h (dict_update di u) obs tn')"
      by (auto simp: compute_guidance_def Let_def split: sum.splits)
    have "di_navigation (dict_update di u) = di_navigation di"
      using free_path_no_navigation [OF u] by (rule dict_update_navigation)
    with r nav show ?thesis
      by (cases "di_navigation di") (simp_all add: path_smoothing_ends precise_instruction_ends)
  next
    case False
    with assms ft di obtain obs where
      r: "gr_instruction r =
        (case di_navigation di of
           Some nav_data \<Rightarrow> precise_instruction nav_data obs
         | None \<Rightarrow> path_smoothing_instruction h di obs tn)"
      by (auto simp: compute_guidance_def Let_def split: sum.splits)
    with nav show ?thesis
      by (cases "di_navigation di") (simp_all add: path_smoothing_ends precise_instruction_ends)
  qed
qed

lemma find_target_subset: "find_target ts objects = (tn, ms) \<Longrightarrow> set ms \<subseteq> set objects"
  by (induction ts) (auto simp: Let_def split: if_splits)

lemma has_height_usable: "has_height obj \<Longrightarrow> usable_box obj"
  by (auto simp: has_height_def usable_box_def bbox4_def unpack4_Some split: option.splits)

lemma compute_guidance_returns:
  assumes "list_all has_height objects" and "w \<noteq> 0" and "ht \<noteq> 0"
  shows "\<exists>r. compute_guidance h objects question w ht = Inr r"
proof -
  obtain tn ts where ft: "find_target (extract_targets question) objects = (tn, ts)"
    by (cases "find_target (extract_targets question) objects") auto
  from find_target_subset [OF ft] assms(1) have "list_all has_height ts"
    by (auto simp: list_all_iff)
  from direction_for_targets_returns [OF this assms(2), of ht]
  obtain di where di: "direction_for_targets ts w ht = Inr di" ..
  from free_path_direction_total [of objects w]
  obtain u where u: "free_path_direction objects w = Inr u" by blast
  from assms(1) have "list_all usable_box objects"
    by (auto simp: list_all_iff has_height_usable)
  from obstacles_loop_returns [OF assms(2,3) this, of ts]
  obtain obs where obs: "analyze_obstacles objects ts w ht = Inr obs"
    by (auto simp: analyze_obstacles_def)
  from ft di u obs show ?thesis
    by (simp add: compute_guidance_def Let_def)
qed


text \<open>
  C9. Every instruction of a result of the engine is non-empty and ends with a full stop,
  an exclamation mark or a question mark, on the precise path and on the fallback path
  alike; the engine returns a result whenever both frame dimensions are not zero and every
  detection has a four-element box of non-zero pixel height.
\<close>

theorem instruction_ends_with_punctuation:
  "(\<forall>r. compute_guidance str_hash objects question img_width img_height = Inr r \<longrightarrow>
      gr_instruction r \<noteq> [] \<and> last (gr_instruction r) \<in> set ''.!?'') \<and>
   (list_all has_height objects \<longrightarrow> img_width \<noteq> 0 \<longrightarrow> img_height \<noteq> 0 \<longrightarrow>
      (\<exists>r. compute_guidance str_hash objects question img_width img_height = Inr r))"
  using compute_guidance_instruction [of str_hash objects question img_width img_height]
    compute_guidance_returns [of objects img_width img_height str_hash question]
  unfolding ends_with_punct_def by blast

theorem instruction_ends_with_punctuation_witness:
  "list_all has_height
     [detection ''person'' 0.9 [200, 100, 440, 460], detection ''chair'' 0.9 [200, 100, 440, 460]] \<and>
   (640 :: real) \<noteq> 0 \<and> (480 :: real) \<noteq> 0 \<and>
   instruction_of (compute_guidance (\<lambda>s. 0)
     [detection ''person'' 0.9 [200, 100, 440, 460], detection ''chair'' 0.9 [200, 100, 440, 460]]
     ''where is the person'' 640 480) =
     Inr ''Walk forward steadily. Target is directly ahead, medium distance (2.3 meters). Caution: chair detected center.'' \<and>
   instruction_of (compute_guidance (\<lambda>s. 0) [] [] 640 480) = Inr ''Move center (clear).''"
proof -
  let ?objs = "[detection ''person'' 0.9 [200, 100, 440, 460],
                detection ''chair'' 0.9 [200, 100, 440, 460]]"
  have v: "list_all has_height ?objs"
    by (simp add: has_height_def detection_def bbox4_def)
  have w: "(640 :: real) \<noteq> 0" and h: "(480 :: real) \<noteq> 0"
    by simp_all
  from instruction_ends_with_punctuation [of "\<lambda>s. 0" ?objs "''where is the person''" 640 480]
    v w h
  obtain r where r: "compute_guidance (\<lambda>s. 0) ?objs ''where is the person'' 640 480 = Inr r"
      "gr_instruction r \<noteq> []"
    by blast
  have e1: "instruction_of (compute_guidance (\<lambda>s. 0) ?objs ''where is the person'' 640 480) =
     Inr ''Walk forward steadily. Target is directly ahead, medium distance (2.3 meters). Caution: chair detected center.''"
    by code_simp
  have e2: "instruction_of (compute_guidance (\<lambda>s. 0) [] [] 640 480) = Inr ''Move center (clear).''"
    by code_simp
  from r v w h e1 e2 show ?thesis by simp
qed




lemma find_target_rule:
  "find_target ts objects = (tn, ms) \<Longrightarrow>
   (tn = None \<and> ms = [] \<and>
      (\<forall>t \<in> set ts. \<forall>obj \<in> set objects. \<not> contains t (py_lower (name obj)))) \<or>
   (\<exists>t \<in> set ts. tn = Some t \<and> ms \<noteq> [] \<and>
      ms = filter (\<lambda>obj. contains t (py_lower (name obj))) objects)"
proof (induction ts)
  case Nil
  then show ?case by simp
next
  case (Cons t ts)
  show ?case
  proof (cases "filter (\<lambda>obj. contains t (py_lower (name obj))) objects = []")
    case True
    with Cons.prems have "find_target ts objects = (tn, ms)" by simp
    from Cons.IH [OF this] True show ?thesis
      by (auto simp: filter_empty_conv)
  next
    case False
    with Cons.prems show ?thesis by (auto simp: Let_def)
  qed
qed

text \<open>
  C5 (the code at a label contained in the keyword). For the query \<^verbatim>\<open>cars\<close> and one
  detection labelled \<^verbatim>\<open>car\<close> the keyword \<^verbatim>\<open>cars\<close> is extracted and the label is a
  substring of it, so the detection matches by the rule of the claim; the matching loop
  tests only whether the keyword occurs in the label and selects nothing.
\<close>

theorem find_target_misses_label_in_keyword:
  "extract_targets ''cars'' = [''cars''] \<and>
   spec_matches ''cars'' (detection ''car'' 0.9 [200, 100, 440, 460]) \<and>
   find_target (extract_targets ''cars'') [detection ''car'' 0.9 [200, 100, 440, 460]] = (None, [])"
  by code_simp

end
